theory Spec2Isabelle
  imports Main "HOL-Library.Char_ord" "HOL-Library.List_Lexorder" "HOL-Library.Multiset"
begin

section \<open>Leave requests and work logs: the server's routes as state transformers\<close>

text \<open>
  The development embeds \<^verbatim>\<open>src/server/server.ts\<close>: the Express routes over the
  \<^verbatim>\<open>requests\<close> and \<^verbatim>\<open>worklogs\<close> tables. A route is a function from the request
  (the authenticated user left by \<^verbatim>\<open>authRequired\<close>, the path parameter, the body),
  the environment (clock, generated id) and the table to the response and the new table.

  Text is \<open>string\<close>: the UTF-8 bytes that SQLite stores and compares with \<^verbatim>\<open>memcmp\<close>.
  The regular expressions of the source are ASCII apart from \<^verbatim>\<open>\s\<close> in the phone pattern,
  whose non-ASCII members are matched as their UTF-8 sequences.
\<close>

subsection \<open>Types of the source\<close>

datatype Role = Employee | Manager | Hr | Admin

datatype RequestStatus = Pending | Approved | Rejected | Canceled

text \<open>\<^verbatim>\<open>interface AuthedUser { id; name; role }\<close>\<close>

record AuthedUser =
  user_id :: string
  user_name :: string
  user_role :: Role

text \<open>
  A row of \<^verbatim>\<open>requests\<close>. Columns without \<^verbatim>\<open>NOT NULL\<close> are options; \<^verbatim>\<open>requesterId\<close> is the
  column added by \<^verbatim>\<open>ensureColumn\<close>. The column \<^verbatim>\<open>note\<close> is the field \<open>noteText\<close>.
\<close>

record LeaveRequest =
  requestId :: string
  dateRequested :: string
  empId :: string
  name :: string
  dept :: string
  position :: string
  leaveType :: string
  startDate :: string
  endDate :: string
  noteText :: "string option"
  status :: RequestStatus
  signature :: "string option"
  handoverPerson :: "string option"
  contact :: "string option"
  managerSignature :: "string option"
  managerSignerId :: "string option"
  managerSignedAt :: "string option"
  requesterId :: "string option"

text \<open>
  A JSON value, as \<^verbatim>\<open>express.json()\<close> leaves it in \<^verbatim>\<open>req.body\<close>. The routes only test
  whether a value is a string, so the number's value is kept as an integer.
  A key of an object that is absent reads as \<^verbatim>\<open>undefined\<close>: \<open>None\<close> below.
\<close>

datatype json = JNull | JBool bool | JNum int | JStr string
  | JArr "json list" | JObj "(string \<times> json) list"

text \<open>\<^verbatim>\<open>JSON.parse\<close> keeps the last of several equal keys.\<close>

definition js_prop :: "(string \<times> json) list \<Rightarrow> string \<Rightarrow> json option" where
  "js_prop kvs k = map_of (rev kvs) k"

subsection \<open>Responses\<close>

text \<open>
  Messages are left out of the model; a zod issue is its path and its code.
  \<^verbatim>\<open>flatten()\<close> sorts the issues into \<^verbatim>\<open>formErrors\<close> (empty path) and
  \<^verbatim>\<open>fieldErrors\<close> (by the first element of the path).
\<close>

datatype issue_code = invalid_type | invalid_string | too_small | invalid_enum_value | custom

type_synonym issue = "string list \<times> issue_code"

datatype error =
    Unauthorized
  | Forbidden
  | ValidationError "issue_code list" "(string \<times> issue_code list) list"
  | NotFound
  | Conflict
  | InternalError
  | BadRequest
  | PayloadTooLarge
  | UnsupportedMediaType

datatype 'a response = Ok 'a | Created 'a | Fail error

fun error_status :: "error \<Rightarrow> nat" where
  "error_status Unauthorized = 401"
| "error_status Forbidden = 403"
| "error_status (ValidationError fo fi) = 400"
| "error_status NotFound = 404"
| "error_status Conflict = 409"
| "error_status InternalError = 500"
| "error_status BadRequest = 400"
| "error_status PayloadTooLarge = 413"
| "error_status UnsupportedMediaType = 415"

fun http_status :: "'a response \<Rightarrow> nat" where
  "http_status (Ok x) = 200"
| "http_status (Created x) = 201"
| "http_status (Fail e) = error_status e"

definition formErrors :: "issue list \<Rightarrow> issue_code list" where
  "formErrors iss = map snd (filter (\<lambda>i. fst i = []) iss)"

definition fieldErrors :: "issue list \<Rightarrow> (string \<times> issue_code list) list" where
  "fieldErrors iss =
     map (\<lambda>k. (k, map snd (filter (\<lambda>i. take 1 (fst i) = [k]) iss)))
         (remdups (concat (map (\<lambda>i. take 1 (fst i)) iss)))"

definition validation_error :: "issue list \<Rightarrow> error" where
  "validation_error iss = ValidationError (formErrors iss) (fieldErrors iss)"

subsection \<open>Middleware\<close>

text \<open>
  \<^verbatim>\<open>authRequired\<close> verifies the token and loads the user; its outcome is the
  \<open>AuthedUser option\<close> that every route takes (\<open>None\<close>: no or invalid token, 401).
\<close>

text \<open>
  \<^verbatim>\<open>app.use(express.json({ limit: '10mb' }))\<close> is mounted before every route, so it
  answers before \<^verbatim>\<open>authRequired\<close> and \<^verbatim>\<open>ensureRole\<close> run. What the request carries,
  as the body parser of Express 4 sorts it:
  \<^item> \<open>NoJson\<close>: no body, or a \<^verbatim>\<open>Content-Type\<close> that is not JSON; \<^verbatim>\<open>req.body\<close> is \<^verbatim>\<open>{}\<close>;
  \<^item> \<open>TooLarge\<close>: more than 10 MB, answered with 413;
  \<^item> \<open>Unsupported\<close>: a charset or content encoding the parser does not read, 415;
  \<^item> \<open>Malformed\<close>: text that \<^verbatim>\<open>JSON.parse\<close> refuses, 400;
  \<^item> \<open>Json v\<close>: the JSON text of \<open>v\<close>. The parser is strict: a value that is not
    an object or an array is answered with 400.
\<close>

datatype raw_body = NoJson | TooLarge | Unsupported | Malformed | Json json

definition express_json :: "raw_body \<Rightarrow> error + json" where
  "express_json raw =
     (case raw of
        NoJson \<Rightarrow> Inr (JObj [])
      | TooLarge \<Rightarrow> Inl PayloadTooLarge
      | Unsupported \<Rightarrow> Inl UnsupportedMediaType
      | Malformed \<Rightarrow> Inl BadRequest
      | Json v \<Rightarrow>
          (case v of
             JObj kvs \<Rightarrow> Inr v
           | JArr xs \<Rightarrow> Inr v
           | _ \<Rightarrow> Inl BadRequest))"

definition authRequired :: "AuthedUser option \<Rightarrow> error option" where
  "authRequired u = (case u of None \<Rightarrow> Some Unauthorized | Some usr \<Rightarrow> None)"

definition ensureRole :: "Role list \<Rightarrow> AuthedUser option \<Rightarrow> error option" where
  "ensureRole roles u =
     (case u of
        None \<Rightarrow> Some Unauthorized
      | Some usr \<Rightarrow> if user_role usr \<in> set roles then None else Some Forbidden)"

subsection \<open>The zod schemas of the status and approval routes\<close>

text \<open>
  A zod parser yields a value unless it aborts (\<open>None\<close>), and the issues it found;
  a failed check of a string (\<^verbatim>\<open>regex\<close>, \<^verbatim>\<open>min\<close>) adds an issue and keeps the value,
  a wrong type or a value outside an enum aborts. \<^verbatim>\<open>safeParse\<close> succeeds when there is
  a value and no issue.
\<close>

definition z_string ::
  "(string \<Rightarrow> bool) \<Rightarrow> issue_code \<Rightarrow> string \<Rightarrow> json option \<Rightarrow> string option \<times> issue list" where
  "z_string chk code key v =
     (case v of
        Some (JStr s) \<Rightarrow> (Some s, if chk s then [] else [([key], code)])
      | _ \<Rightarrow> (None, [([key], invalid_type)]))"

definition z_enum ::
  "(string \<times> 'a) list \<Rightarrow> string \<Rightarrow> json option \<Rightarrow> 'a option \<times> issue list" where
  "z_enum vals key v =
     (case v of
        Some (JStr s) \<Rightarrow>
          (case map_of vals s of
             Some a \<Rightarrow> (Some a, [])
           | None \<Rightarrow> (None, [([key], invalid_enum_value)]))
      | _ \<Rightarrow> (None, [([key], invalid_type)]))"

text \<open>\<^verbatim>\<open>.default(d)\<close>: an \<^verbatim>\<open>undefined\<close> input is replaced by \<open>d\<close> before the inner parser runs.\<close>

definition z_default :: "string \<Rightarrow> json option \<Rightarrow> json option" where
  "z_default d v = (case v of None \<Rightarrow> Some (JStr d) | Some x \<Rightarrow> Some x)"

definition safeParse :: "'a option \<times> issue list \<Rightarrow> issue list + 'a" where
  "safeParse r =
     (case fst r of
        None \<Rightarrow> Inl (snd r)
      | Some x \<Rightarrow> if snd r = [] then Inr x else Inl (snd r))"

definition StatusEnum :: "(string \<times> RequestStatus) list" where
  "StatusEnum = [(''Pending'', Pending), (''Approved'', Approved),
                 (''Rejected'', Rejected), (''Canceled'', Canceled)]"

text \<open>\<^verbatim>\<open>/^data:image\/(png|jpeg);base64,/\<close>\<close>

definition signature_regex :: "string \<Rightarrow> bool" where
  "signature_regex s =
     (take 22 s = ''data:image/png;base64,'' \<or> take 23 s = ''data:image/jpeg;base64,'')"

definition updateStatusSchema :: "json \<Rightarrow> RequestStatus option \<times> issue list" where
  "updateStatusSchema body =
     (case body of
        JObj kvs \<Rightarrow> z_enum StatusEnum ''status'' (js_prop kvs ''status'')
      | _ \<Rightarrow> (None, [([], invalid_type)]))"

definition approveWithSignatureSchema :: "json \<Rightarrow> string option \<times> issue list" where
  "approveWithSignatureSchema body =
     (case body of
        JObj kvs \<Rightarrow>
          z_string signature_regex invalid_string ''signatureDataUrl''
            (js_prop kvs ''signatureDataUrl'')
      | _ \<Rightarrow> (None, [([], invalid_type)]))"

subsection \<open>Clock and number formatting\<close>

text \<open>
  The local calendar fields that the getters of a \<^verbatim>\<open>Date\<close> return; \<open>getMonth\<close> counts
  from 0. \<open>show_nat\<close> and \<open>show_int\<close> are \<^verbatim>\<open>String(n)\<close> on integers, \<open>pad2\<close> is
  \<^verbatim>\<open>padStart(2,'0')\<close>.
\<close>

record LocalTime =
  getFullYear :: int
  getMonth :: nat
  getDate :: nat
  getHours :: nat
  getMinutes :: nat
  getSeconds :: nat

fun show_nat :: "nat \<Rightarrow> string" where
  "show_nat n =
     (if n < 10 then [''0123456789'' ! n]
      else show_nat (n div 10) @ [''0123456789'' ! (n mod 10)])"

declare show_nat.simps [simp del]

definition show_int :: "int \<Rightarrow> string" where
  "show_int i = (if i < 0 then CHR ''-'' # show_nat (nat (- i)) else show_nat (nat i))"

definition pad2 :: "string \<Rightarrow> string" where
  "pad2 s = replicate (2 - length s) CHR ''0'' @ s"

definition ymd :: "int \<Rightarrow> nat \<Rightarrow> nat \<Rightarrow> string" where
  "ymd y m d = show_int y @ ''-'' @ pad2 (show_nat (m + 1)) @ ''-'' @ pad2 (show_nat d)"

definition timestamp :: "LocalTime \<Rightarrow> string" where
  "timestamp now =
     ymd (getFullYear now) (getMonth now) (getDate now) @ ''T'' @
     pad2 (show_nat (getHours now)) @ '':'' @ pad2 (show_nat (getMinutes now)) @ '':'' @
     pad2 (show_nat (getSeconds now))"

subsection \<open>The table \<^verbatim>\<open>requests\<close>\<close>

text \<open>
  The table is the list of its rows in insertion order. \<^verbatim>\<open>SELECT ... WHERE requestId=?\<close>
  with \<^verbatim>\<open>.get\<close> is the first matching row or \<^verbatim>\<open>undefined\<close>; \<^verbatim>\<open>UPDATE ... WHERE requestId=?\<close>
  rewrites every matching row.
\<close>

definition select_by_id :: "LeaveRequest list \<Rightarrow> string \<Rightarrow> LeaveRequest option" where
  "select_by_id rows rid = find (\<lambda>r. requestId r = rid) rows"

definition update_by_id ::
  "(LeaveRequest \<Rightarrow> LeaveRequest) \<Rightarrow> string \<Rightarrow> LeaveRequest list \<Rightarrow> LeaveRequest list" where
  "update_by_id f rid rows = map (\<lambda>r. if requestId r = rid then f r else r) rows"

text \<open>
  \<^verbatim>\<open>ORDER BY dateRequested DESC\<close>: the rows by descending text, rows of equal date in
  table order (SQL leaves the order of ties open).
\<close>

fun insert_desc :: "LeaveRequest \<Rightarrow> LeaveRequest list \<Rightarrow> LeaveRequest list" where
  "insert_desc r [] = [r]"
| "insert_desc r (x # xs) =
     (if dateRequested r < dateRequested x then x # insert_desc r xs else r # x # xs)"

definition order_by_dateRequested_desc :: "LeaveRequest list \<Rightarrow> LeaveRequest list" where
  "order_by_dateRequested_desc rows = foldr insert_desc rows []"

subsection \<open>Status change and approval\<close>

text \<open>
  \<^verbatim>\<open>PUT /api/requests/:id/status\<close>: \<^verbatim>\<open>authRequired\<close>, \<^verbatim>\<open>ensureRole(['manager','admin'])\<close>,
  handler. \<open>body\<close> is \<^verbatim>\<open>req.body\<close> as \<open>express_json\<close> passed it on;
  \<open>app_put_requests_status\<close> below is the request from the body parser onwards.
\<close>

definition put_requests_status ::
  "AuthedUser option \<Rightarrow> string \<Rightarrow> json \<Rightarrow> LeaveRequest list
   \<Rightarrow> LeaveRequest option response \<times> LeaveRequest list" where
  "put_requests_status u rid body rows =
     (case authRequired u of Some e \<Rightarrow> (Fail e, rows) | None \<Rightarrow>
     (case ensureRole [Manager, Admin] u of Some e \<Rightarrow> (Fail e, rows) | None \<Rightarrow>
     (case safeParse (updateStatusSchema body) of
        Inl iss \<Rightarrow> (Fail (ValidationError [] []), rows)
      | Inr st \<Rightarrow>
          (case select_by_id rows rid of
             None \<Rightarrow> (Fail NotFound, rows)
           | Some ex \<Rightarrow>
               let rows' = update_by_id (\<lambda>r. r\<lparr>status := st\<rparr>) rid rows
               in (Ok (select_by_id rows' rid), rows')))))"

text \<open>
  \<^verbatim>\<open>POST /api/requests/:id/approve\<close>, on the \<^verbatim>\<open>req.body\<close> that \<open>express_json\<close> passed
  on. \<^verbatim>\<open>req.user!.id\<close> would throw on a missing user (Express answers 500);
  \<^verbatim>\<open>ensureRole\<close> has excluded it.
\<close>

definition post_requests_approve ::
  "AuthedUser option \<Rightarrow> string \<Rightarrow> json \<Rightarrow> LocalTime \<Rightarrow> LeaveRequest list
   \<Rightarrow> LeaveRequest option response \<times> LeaveRequest list" where
  "post_requests_approve u rid body now rows =
     (case authRequired u of Some e \<Rightarrow> (Fail e, rows) | None \<Rightarrow>
     (case ensureRole [Manager, Admin] u of Some e \<Rightarrow> (Fail e, rows) | None \<Rightarrow>
     (case safeParse (approveWithSignatureSchema body) of
        Inl iss \<Rightarrow> (Fail (validation_error iss), rows)
      | Inr sig \<Rightarrow>
          (case select_by_id rows rid of
             None \<Rightarrow> (Fail NotFound, rows)
           | Some ex \<Rightarrow>
               if status ex = Approved then (Fail Conflict, rows)
               else
                 (case u of
                    None \<Rightarrow> (Fail InternalError, rows)
                  | Some usr \<Rightarrow>
                      let rows' =
                        update_by_id
                          (\<lambda>r. r\<lparr>status := Approved, managerSignature := Some sig,
                                  managerSignerId := Some (user_id usr),
                                  managerSignedAt := Some (timestamp now)\<rparr>) rid rows
                      in (Ok (select_by_id rows' rid), rows'))))))"

text \<open>
  The two requests as the application answers them: the body parser first, then the
  route. An error of the parser ends the request with the table untouched.
\<close>

definition app_put_requests_status ::
  "AuthedUser option \<Rightarrow> string \<Rightarrow> raw_body \<Rightarrow> LeaveRequest list
   \<Rightarrow> LeaveRequest option response \<times> LeaveRequest list" where
  "app_put_requests_status u rid raw rows =
     (case express_json raw of
        Inl e \<Rightarrow> (Fail e, rows)
      | Inr body \<Rightarrow> put_requests_status u rid body rows)"

definition app_post_requests_approve ::
  "AuthedUser option \<Rightarrow> string \<Rightarrow> raw_body \<Rightarrow> LocalTime \<Rightarrow> LeaveRequest list
   \<Rightarrow> LeaveRequest option response \<times> LeaveRequest list" where
  "app_post_requests_approve u rid raw now rows =
     (case express_json raw of
        Inl e \<Rightarrow> (Fail e, rows)
      | Inr body \<Rightarrow> post_requests_approve u rid body now rows)"

text \<open>\<^verbatim>\<open>GET /api/requests/mine\<close>: \<^verbatim>\<open>WHERE requesterId = ?\<close> is not true of a NULL column.\<close>

definition get_requests_mine ::
  "AuthedUser option \<Rightarrow> LeaveRequest list \<Rightarrow> LeaveRequest list response" where
  "get_requests_mine u rows =
     (case authRequired u of Some e \<Rightarrow> Fail e | None \<Rightarrow>
     (case u of
        None \<Rightarrow> Fail InternalError
      | Some usr \<Rightarrow>
          Ok (order_by_dateRequested_desc
                (filter (\<lambda>r. requesterId r = Some (user_id usr)) rows))))"

subsection \<open>Calendar arithmetic of the \<^verbatim>\<open>Date\<close> object\<close>

text \<open>
  \<^verbatim>\<open>cut.setMonth(cut.getMonth()-1)\<close> keeps the day of the month and moves to the previous
  month (December of the previous year from January). ECMAScript's \<^verbatim>\<open>MakeDay\<close> counts
  the day from the first of that month, so a day that the month does not have runs over
  into the month after it.
\<close>

definition InLeapYear :: "int \<Rightarrow> bool" where
  "InLeapYear y = (y mod 4 = 0 \<and> (y mod 100 \<noteq> 0 \<or> y mod 400 = 0))"

definition DaysInMonth :: "int \<Rightarrow> nat \<Rightarrow> nat" where
  "DaysInMonth y m =
     (if m = 1 then (if InLeapYear y then 29 else 28)
      else if m = 3 \<or> m = 5 \<or> m = 8 \<or> m = 10 then 30 else 31)"

definition setMonth_prev :: "LocalTime \<Rightarrow> LocalTime" where
  "setMonth_prev t =
     (let y = (if getMonth t = 0 then getFullYear t - 1 else getFullYear t);
          m = (if getMonth t = 0 then 11 else getMonth t - 1);
          n = DaysInMonth y m
      in if getDate t \<le> n then t\<lparr>getFullYear := y, getMonth := m\<rparr>
         else t\<lparr>getFullYear := y, getMonth := m + 1, getDate := getDate t - n\<rparr>)"

definition todayStr :: "LocalTime \<Rightarrow> string" where
  "todayStr d = ymd (getFullYear d) (getMonth d) (getDate d)"

definition cutStr :: "LocalTime \<Rightarrow> string" where
  "cutStr now =
     (let cut = setMonth_prev now in ymd (getFullYear cut) (getMonth cut) (getDate cut))"

text \<open>\<^verbatim>\<open>GET /api/requests/recent\<close>: \<^verbatim>\<open>authRequired\<close>, \<^verbatim>\<open>ensureRole(['manager','hr','admin'])\<close>.\<close>

definition get_requests_recent ::
  "AuthedUser option \<Rightarrow> LocalTime \<Rightarrow> LeaveRequest list \<Rightarrow> LeaveRequest list response" where
  "get_requests_recent u now rows =
     (case authRequired u of Some e \<Rightarrow> Fail e | None \<Rightarrow>
     (case ensureRole [Manager, Hr, Admin] u of Some e \<Rightarrow> Fail e | None \<Rightarrow>
        Ok (order_by_dateRequested_desc
              (filter (\<lambda>r. cutStr now \<le> dateRequested r) rows))))"

text \<open>
  \<^verbatim>\<open>new Date(s).getTime()\<close> for a date-only ISO string, as V8 reads it: UTC midnight of
  year, month 01..12 and day 01..31, the day counted on from the first of the month;
  \<open>None\<close> is \<^verbatim>\<open>NaN\<close>. It is the instance of the engine's parser used on concrete
  inputs; the schema below takes the parser as a parameter.
\<close>

definition DayFromYear :: "int \<Rightarrow> int" where
  "DayFromYear y =
     365 * (y - 1970) + (y - 1969) div 4 - (y - 1901) div 100 + (y - 1601) div 400"

definition MakeDay :: "int \<Rightarrow> nat \<Rightarrow> nat \<Rightarrow> int" where
  "MakeDay y m d = DayFromYear y + int (sum_list (map (DaysInMonth y) [0..<m])) + int d - 1"

definition digit :: "char \<Rightarrow> bool" where
  "digit c = (c \<in> set ''0123456789'')"

definition digits_val :: "string \<Rightarrow> nat" where
  "digits_val s = foldl (\<lambda>a c. 10 * a + (of_char c - 48)) 0 s"

text \<open>\<^verbatim>\<open>/^\d{4}-\d{2}-\d{2}$/\<close>\<close>

definition date_regex :: "string \<Rightarrow> bool" where
  "date_regex s =
     (length s = 10 \<and> (\<forall>i \<in> {0, 1, 2, 3, 5, 6, 8, 9}. digit (s ! i)) \<and>
      s ! 4 = CHR ''-'' \<and> s ! 7 = CHR ''-'')"

definition iso_date_getTime :: "string \<Rightarrow> int option" where
  "iso_date_getTime s =
     (if date_regex s then
        (let y = digits_val (take 4 s); m = digits_val (take 2 (drop 5 s));
             d = digits_val (take 2 (drop 8 s))
         in if 1 \<le> m \<and> m \<le> 12 \<and> 1 \<le> d \<and> d \<le> 31
            then Some (MakeDay (int y) (m - 1) d * 86400000) else None)
      else None)"

subsection \<open>The schema of a new request\<close>

text \<open>
  \<^verbatim>\<open>phoneRegex = /^[0-9\-\s()+]{7,20}$/\<close>. \<open>phone_units\<close> counts the characters of a
  string made of characters of the class only; the white space of \<^verbatim>\<open>\s\<close> beyond ASCII
  is U+00A0, U+1680, U+2000..U+200A, U+2028, U+2029, U+202F, U+205F, U+3000 and U+FEFF.
\<close>

definition phone_ascii :: "char \<Rightarrow> bool" where
  "phone_ascii c =
     (c \<in> set ''0123456789-()+ '' \<or>
      c \<in> {CHR 0x09, CHR 0x0A, CHR 0x0B, CHR 0x0C, CHR 0x0D})"

definition space2 :: "string \<Rightarrow> bool" where
  "space2 w = (w = [CHR 0xC2, CHR 0xA0])"

definition space3 :: "string \<Rightarrow> bool" where
  "space3 w =
     (w = [CHR 0xE1, CHR 0x9A, CHR 0x80] \<or>
      (take 2 w = [CHR 0xE2, CHR 0x80] \<and> length w = 3 \<and>
         (of_char (w ! 2) :: nat) \<in> {0x80, 0x81, 0x82, 0x83, 0x84, 0x85, 0x86, 0x87, 0x88,
                                      0x89, 0x8A, 0xA8, 0xA9, 0xAF}) \<or>
      w = [CHR 0xE2, CHR 0x81, CHR 0x9F] \<or> w = [CHR 0xE3, CHR 0x80, CHR 0x80] \<or>
      w = [CHR 0xEF, CHR 0xBB, CHR 0xBF])"

fun phone_units :: "string \<Rightarrow> nat option" where
  "phone_units [] = Some 0"
| "phone_units (c # cs) =
     (if phone_ascii c then map_option Suc (phone_units cs)
      else if space2 (c # take 1 cs) then map_option Suc (phone_units (drop 1 cs))
      else if space3 (c # take 2 cs) then map_option Suc (phone_units (drop 2 cs))
      else None)"

definition phoneRegex :: "string \<Rightarrow> bool" where
  "phoneRegex s = (case phone_units s of None \<Rightarrow> False | Some n \<Rightarrow> 7 \<le> n \<and> n \<le> 20)"

text \<open>\<^verbatim>\<open>.min(1)\<close>\<close>

definition min1 :: "string \<Rightarrow> bool" where
  "min1 s = (1 \<le> length s)"

text \<open>
  The values of \<^verbatim>\<open>DeptEnum\<close> and \<^verbatim>\<open>LeaveTypeEnum\<close> in UTF-8. The departments are
  U+AC1C U+BC1C U+D300, U+C0DD U+C0B0 U+C9C0 U+C6D0 U+D300,
  U+C0DD U+C0B0 U+D300 and U+ACF5 U+BB34 U+D300; the leave types are
  U+C5F0 U+CC28, U+BC18 U+CC28, U+BCD1 U+AC00 and U+ACBD U+C870 U+C0AC.
\<close>

definition DeptEnum :: "(string \<times> string) list" where
  "DeptEnum = map (\<lambda>s. (s, s))
     [[CHR 0xEA, CHR 0xB0, CHR 0x9C, CHR 0xEB, CHR 0xB0, CHR 0x9C, CHR 0xED, CHR 0x8C, CHR 0x80],
      [CHR 0xEC, CHR 0x83, CHR 0x9D, CHR 0xEC, CHR 0x82, CHR 0xB0, CHR 0xEC, CHR 0xA7, CHR 0x80, CHR 0xEC, CHR 0x9B, CHR 0x90, CHR 0xED, CHR 0x8C, CHR 0x80],
      [CHR 0xEC, CHR 0x83, CHR 0x9D, CHR 0xEC, CHR 0x82, CHR 0xB0, CHR 0xED, CHR 0x8C, CHR 0x80],
      [CHR 0xEA, CHR 0xB3, CHR 0xB5, CHR 0xEB, CHR 0xAC, CHR 0xB4, CHR 0xED, CHR 0x8C, CHR 0x80]]"

definition LeaveTypeEnum :: "(string \<times> string) list" where
  "LeaveTypeEnum = map (\<lambda>s. (s, s))
     [[CHR 0xEC, CHR 0x97, CHR 0xB0, CHR 0xEC, CHR 0xB0, CHR 0xA8],
      [CHR 0xEB, CHR 0xB0, CHR 0x98, CHR 0xEC, CHR 0xB0, CHR 0xA8],
      [CHR 0xEB, CHR 0xB3, CHR 0x91, CHR 0xEA, CHR 0xB0, CHR 0x80],
      [CHR 0xEA, CHR 0xB2, CHR 0xBD, CHR 0xEC, CHR 0xA1, CHR 0xB0, CHR 0xEC, CHR 0x82, CHR 0xAC]]"

text \<open>The value that \<^verbatim>\<open>createRequestSchema\<close> yields: unknown keys are stripped.\<close>

record CreateRequest =
  p_dateRequested :: string
  p_empId :: string
  p_name :: string
  p_dept :: string
  p_position :: string
  p_leaveType :: string
  p_startDate :: string
  p_endDate :: string
  p_note :: string
  p_handoverPerson :: string
  p_contact :: string
  p_status :: RequestStatus
  p_signatureDataUrl :: string

text \<open>
  The refinement: \<^verbatim>\<open>new Date(v.endDate).getTime() >= new Date(v.startDate).getTime()\<close>,
  false when either time is \<^verbatim>\<open>NaN\<close>. \<open>getTime\<close> is the engine's
  \<^verbatim>\<open>new Date(s).getTime()\<close>.
\<close>

definition refine_endDate :: "(string \<Rightarrow> int option) \<Rightarrow> CreateRequest \<Rightarrow> bool" where
  "refine_endDate getTime v =
     (case (getTime (p_endDate v), getTime (p_startDate v)) of
        (Some e, Some s) \<Rightarrow> s \<le> e
      | _ \<Rightarrow> False)"

text \<open>
  The object schema \<^verbatim>\<open>z.object({...})\<close> parses every key of its shape and collects all
  issues; it aborts when a key aborts.
\<close>

definition createRequestObject ::
  "(string \<times> json) list \<Rightarrow> CreateRequest option \<times> issue list" where
  "createRequestObject kvs =
     (let g = js_prop kvs;
          f1 = z_string date_regex invalid_string ''dateRequested'' (g ''dateRequested'');
          f2 = z_string min1 too_small ''empId'' (g ''empId'');
          f3 = z_string min1 too_small ''name'' (g ''name'');
          f4 = z_enum DeptEnum ''dept'' (g ''dept'');
          f5 = z_string min1 too_small ''position'' (g ''position'');
          f6 = z_enum LeaveTypeEnum ''leaveType'' (g ''leaveType'');
          f7 = z_string date_regex invalid_string ''startDate'' (g ''startDate'');
          f8 = z_string date_regex invalid_string ''endDate'' (g ''endDate'');
          f9 = z_string (\<lambda>s. True) invalid_string ''note'' (z_default [] (g ''note''));
          f10 = z_string min1 too_small ''handoverPerson'' (g ''handoverPerson'');
          f11 = z_string phoneRegex invalid_string ''contact'' (g ''contact'');
          f12 = z_enum StatusEnum ''status'' (z_default ''Pending'' (g ''status''));
          f13 = z_string signature_regex invalid_string ''signatureDataUrl''
                  (g ''signatureDataUrl'')
      in (Option.bind (fst f1) (\<lambda>v1. Option.bind (fst f2) (\<lambda>v2.
          Option.bind (fst f3) (\<lambda>v3. Option.bind (fst f4) (\<lambda>v4.
          Option.bind (fst f5) (\<lambda>v5. Option.bind (fst f6) (\<lambda>v6.
          Option.bind (fst f7) (\<lambda>v7. Option.bind (fst f8) (\<lambda>v8.
          Option.bind (fst f9) (\<lambda>v9. Option.bind (fst f10) (\<lambda>v10.
          Option.bind (fst f11) (\<lambda>v11. Option.bind (fst f12) (\<lambda>v12.
          Option.bind (fst f13) (\<lambda>v13.
            Some \<lparr>p_dateRequested = v1, p_empId = v2, p_name = v3, p_dept = v4,
                  p_position = v5, p_leaveType = v6, p_startDate = v7, p_endDate = v8,
                  p_note = v9, p_handoverPerson = v10, p_contact = v11,
                  p_status = v12, p_signatureDataUrl = v13\<rparr>))))))))))))),
          snd f1 @ snd f2 @ snd f3 @ snd f4 @ snd f5 @ snd f6 @ snd f7 @ snd f8 @
          snd f9 @ snd f10 @ snd f11 @ snd f12 @ snd f13))"

text \<open>
  \<^verbatim>\<open>.refine(..., { path: ['endDate'] })\<close>: the refinement runs only on an object that did
  not abort, and adds its issue to those of the keys. The body must be a JSON object.
\<close>

definition createRequestSchema ::
  "(string \<Rightarrow> int option) \<Rightarrow> json \<Rightarrow> CreateRequest option \<times> issue list" where
  "createRequestSchema getTime body =
     (case body of
        JObj kvs \<Rightarrow>
          (case createRequestObject kvs of
             (None, iss) \<Rightarrow> (None, iss)
           | (Some v, iss) \<Rightarrow>
               (Some v, iss @ (if refine_endDate getTime v then []
                               else [([''endDate''], custom)])))
      | _ \<Rightarrow> (None, [([], invalid_type)]))"

text \<open>
  The bodies on which the object schema does not abort: every key has the type that the
  shape asks for, and the enums have one of their values; \<^verbatim>\<open>note\<close> and \<^verbatim>\<open>status\<close> may
  be absent.
\<close>

definition is_string :: "json option \<Rightarrow> bool" where
  "is_string v = (case v of Some (JStr s) \<Rightarrow> True | _ \<Rightarrow> False)"

definition is_enum :: "(string \<times> 'a) list \<Rightarrow> json option \<Rightarrow> bool" where
  "is_enum vals v = (case v of Some (JStr s) \<Rightarrow> map_of vals s \<noteq> None | _ \<Rightarrow> False)"

definition well_typed :: "(string \<times> json) list \<Rightarrow> bool" where
  "well_typed kvs =
     (list_all (\<lambda>k. is_string (js_prop kvs k))
        [''dateRequested'', ''empId'', ''name'', ''position'', ''startDate'', ''endDate'',
         ''handoverPerson'', ''contact'', ''signatureDataUrl''] \<and>
      is_enum DeptEnum (js_prop kvs ''dept'') \<and>
      is_enum LeaveTypeEnum (js_prop kvs ''leaveType'') \<and>
      (js_prop kvs ''note'' = None \<or> is_string (js_prop kvs ''note'')) \<and>
      (js_prop kvs ''status'' = None \<or> is_enum StatusEnum (js_prop kvs ''status'')))"

subsection \<open>Submission\<close>

text \<open>
  \<^verbatim>\<open>POST /api/requests\<close>: \<^verbatim>\<open>authRequired\<close>, \<^verbatim>\<open>ensureRole(['employee','admin'])\<close>, handler.
  \<open>newId\<close> is the value of \<^verbatim>\<open>cryptoRandomId()\<close>. \<^verbatim>\<open>requestId\<close> is the primary key:
  the \<^verbatim>\<open>INSERT\<close> of a key that the table has throws, and Express answers 500.
\<close>

definition post_requests ::
  "(string \<Rightarrow> int option) \<Rightarrow> AuthedUser option \<Rightarrow> string \<Rightarrow> json \<Rightarrow> LeaveRequest list
   \<Rightarrow> LeaveRequest option response \<times> LeaveRequest list" where
  "post_requests getTime u newId body rows =
     (case authRequired u of Some e \<Rightarrow> (Fail e, rows) | None \<Rightarrow>
     (case ensureRole [Employee, Admin] u of Some e \<Rightarrow> (Fail e, rows) | None \<Rightarrow>
     (case safeParse (createRequestSchema getTime body) of
        Inl iss \<Rightarrow> (Fail (validation_error iss), rows)
      | Inr r \<Rightarrow>
          (case u of
             None \<Rightarrow> (Fail InternalError, rows)
           | Some usr \<Rightarrow>
               if newId \<in> requestId ` set rows then (Fail InternalError, rows)
               else
                 let rows' = rows @
                   [\<lparr>requestId = newId, dateRequested = p_dateRequested r,
                     empId = p_empId r, name = p_name r, dept = p_dept r,
                     position = p_position r, leaveType = p_leaveType r,
                     startDate = p_startDate r, endDate = p_endDate r,
                     noteText = Some (p_note r), status = p_status r,
                     signature = Some (p_signatureDataUrl r),
                     handoverPerson = Some (p_handoverPerson r),
                     contact = Some (p_contact r), managerSignature = None,
                     managerSignerId = None, managerSignedAt = None,
                     requesterId = Some (user_id usr)\<rparr>]
                 in (Created (select_by_id rows' newId), rows')))))"

subsection \<open>Work-log upload\<close>








datatype WorklogStatus = WPending | WApproved | WRejected





subsection \<open>Reachable tables\<close>

text \<open>
  The table \<^verbatim>\<open>requests\<close> starts empty or with rows inserted without the approver's
  columns (the seeding script writes such rows); the routes are the only writers after that.
\<close>

definition approver_unset :: "LeaveRequest \<Rightarrow> bool" where
  "approver_unset r =
     (managerSignature r = None \<and> managerSignerId r = None \<and> managerSignedAt r = None)"

definition approver_set :: "LeaveRequest \<Rightarrow> bool" where
  "approver_set r =
     (managerSignature r \<noteq> None \<and> managerSignerId r \<noteq> None \<and> managerSignedAt r \<noteq> None)"

inductive reachable :: "(string \<Rightarrow> int option) \<Rightarrow> LeaveRequest list \<Rightarrow> bool"
  for getTime :: "string \<Rightarrow> int option" where
  initial: "list_all approver_unset rows \<Longrightarrow> reachable getTime rows"
| submit: "reachable getTime rows \<Longrightarrow> reachable getTime (snd (post_requests getTime u newId body rows))"
| update: "reachable getTime rows \<Longrightarrow> reachable getTime (snd (put_requests_status u rid body rows))"
| approve: "reachable getTime rows \<Longrightarrow> reachable getTime (snd (post_requests_approve u rid body now rows))"

subsection \<open>Example data\<close>

definition staff :: AuthedUser where
  "staff = \<lparr>user_id = ''u-emp'', user_name = ''Lee'', user_role = Employee\<rparr>"

definition boss :: AuthedUser where
  "boss = \<lparr>user_id = ''u-mgr'', user_name = ''Hong'', user_role = Manager\<rparr>"

definition noon :: LocalTime where
  "noon = \<lparr>getFullYear = 2025, getMonth = 5, getDate = 15,
           getHours = 12, getMinutes = 0, getSeconds = 7\<rparr>"

definition png :: string where
  "png = ''data:image/png;base64,AAAA''"

definition leave_body :: "(string \<times> json) list" where
  "leave_body =
     [(''dateRequested'', JStr ''2025-01-09''), (''empId'', JStr ''E0001''),
      (''name'', JStr ''Lee''),
      (''dept'', JStr [CHR 0xEA, CHR 0xB0, CHR 0x9C, CHR 0xEB, CHR 0xB0, CHR 0x9C, CHR 0xED, CHR 0x8C, CHR 0x80]),
      (''position'', JStr ''staff''),
      (''leaveType'', JStr [CHR 0xEC, CHR 0x97, CHR 0xB0, CHR 0xEC, CHR 0xB0, CHR 0xA8]),
      (''startDate'', JStr ''2025-01-10''), (''endDate'', JStr ''2025-01-12''),
      (''handoverPerson'', JStr ''X''), (''contact'', JStr ''010-1234-5678''),
      (''signatureDataUrl'', JStr png)]"

definition pending_row :: LeaveRequest where
  "pending_row =
     \<lparr>requestId = ''r1'', dateRequested = ''2025-06-01'', empId = ''E0001'', name = ''Lee'',
      dept = [CHR 0xEA, CHR 0xB0, CHR 0x9C, CHR 0xEB, CHR 0xB0, CHR 0x9C, CHR 0xED, CHR 0x8C, CHR 0x80],
      position = ''staff'',
      leaveType = [CHR 0xEC, CHR 0x97, CHR 0xB0, CHR 0xEC, CHR 0xB0, CHR 0xA8],
      startDate = ''2025-06-10'', endDate = ''2025-06-12'', noteText = Some [],
      status = Pending, signature = Some png, handoverPerson = Some ''X'',
      contact = Some ''010-1234-5678'', managerSignature = None, managerSignerId = None,
      managerSignedAt = None, requesterId = Some ''u-emp''\<rparr>"

definition approved_row :: LeaveRequest where
  "approved_row = pending_row\<lparr>status := Approved, managerSignature := Some png,
     managerSignerId := Some ''u-mgr'', managerSignedAt := Some ''2025-06-15T12:00:07''\<rparr>"

definition submitted_row :: LeaveRequest where
  "submitted_row =
     \<lparr>requestId = ''r9'', dateRequested = ''2025-01-09'', empId = ''E0001'', name = ''Lee'',
      dept = [CHR 0xEA, CHR 0xB0, CHR 0x9C, CHR 0xEB, CHR 0xB0, CHR 0x9C, CHR 0xED, CHR 0x8C, CHR 0x80],
      position = ''staff'',
      leaveType = [CHR 0xEC, CHR 0x97, CHR 0xB0, CHR 0xEC, CHR 0xB0, CHR 0xA8],
      startDate = ''2025-01-10'', endDate = ''2025-01-12'', noteText = Some [],
      status = Pending, signature = Some png, handoverPerson = Some ''X'',
      contact = Some ''010-1234-5678'', managerSignature = None, managerSignerId = None,
      managerSignedAt = None, requesterId = Some ''u-emp''\<rparr>"



definition approver_inv :: "LeaveRequest \<Rightarrow> bool" where
  "approver_inv r = (approver_unset r \<or> approver_set r)"

definition leave_parsed :: CreateRequest where
  "leave_parsed =
     \<lparr>p_dateRequested = ''2025-01-09'', p_empId = ''E0001'', p_name = ''Lee'',
      p_dept = dept pending_row, p_position = ''staff'', p_leaveType = leaveType pending_row,
      p_startDate = ''2025-01-10'', p_endDate = ''2025-01-12'', p_note = [],
      p_handoverPerson = ''X'', p_contact = ''010-1234-5678'', p_status = Pending,
      p_signatureDataUrl = png\<rparr>"

definition new_year :: LocalTime where
  "new_year = \<lparr>getFullYear = 2025, getMonth = 0, getDate = 31,
               getHours = 9, getMinutes = 30, getSeconds = 0\<rparr>"

definition may_rows :: "LeaveRequest list" where
  "may_rows = [pending_row\<lparr>dateRequested := ''2025-05-14''\<rparr>,
               pending_row\<lparr>dateRequested := ''2025-05-15''\<rparr>, pending_row]"

section \<open>Properties\<close>

subsection \<open>Auxiliary facts\<close>

lemmas route_defs = put_requests_status_def post_requests_approve_def authRequired_def
  ensureRole_def safeParse_def updateStatusSchema_def approveWithSignatureSchema_def
  z_enum_def z_string_def js_prop_def StatusEnum_def signature_regex_def
  select_by_id_def update_by_id_def

lemmas example_defs = staff_def boss_def noon_def png_def pending_row_def leave_body_def

lemmas clock_defs = timestamp_def ymd_def show_int_def pad2_def show_nat.simps

lemma mset_insert_desc: "mset (insert_desc r xs) = add_mset r (mset xs)"
  by (induction xs) auto

lemma mset_order_by: "mset (order_by_dateRequested_desc rows) = mset rows"
  unfolding order_by_dateRequested_desc_def
  by (induction rows) (auto simp: mset_insert_desc)

lemma set_order_by: "set (order_by_dateRequested_desc rows) = set rows"
  using mset_order_by [of rows] by (metis set_mset_mset)

lemma set_insert_desc: "set (insert_desc r xs) = insert r (set xs)"
  using mset_insert_desc [of r xs] by (metis set_mset_mset set_mset_add_mset_insert)

lemma sorted_insert_desc:
  "sorted_wrt (\<lambda>a b. dateRequested b \<le> dateRequested a) xs
   \<Longrightarrow> sorted_wrt (\<lambda>a b. dateRequested b \<le> dateRequested a) (insert_desc r xs)"
  by (induction xs) (auto simp: set_insert_desc)

lemma sorted_order_by:
  "sorted_wrt (\<lambda>a b. dateRequested b \<le> dateRequested a) (order_by_dateRequested_desc rows)"
  unfolding order_by_dateRequested_desc_def
  by (induction rows) (auto simp: sorted_insert_desc)

lemma select_by_id_None: "rid \<notin> requestId ` set rows \<Longrightarrow> select_by_id rows rid = None"
  by (auto simp: select_by_id_def find_None_iff)

lemma select_by_id_update:
  "select_by_id rows rid = Some r \<Longrightarrow> requestId (f r) = rid
   \<Longrightarrow> select_by_id (update_by_id f rid rows) rid = Some (f r)"
  unfolding select_by_id_def update_by_id_def
  by (induction rows) (auto split: if_splits)

lemma select_by_id_append_new:
  "rid \<notin> requestId ` set rows \<Longrightarrow> requestId r = rid \<Longrightarrow> select_by_id (rows @ [r]) rid = Some r"
  unfolding select_by_id_def by (induction rows) auto

lemma select_by_id_mem: "select_by_id rows rid = Some r \<Longrightarrow> r \<in> set rows \<and> requestId r = rid"
  by (auto simp: select_by_id_def find_Some_iff)

text \<open>What a parsed object says about the body.\<close>

lemma z_string_fst: "fst (z_string chk code key v) = Some s \<longleftrightarrow> v = Some (JStr s)"
  by (auto simp: z_string_def split: option.splits json.splits)

lemma z_enum_fst:
  "fst (z_enum vals key v) = Some a \<longleftrightarrow> (\<exists>s. v = Some (JStr s) \<and> map_of vals s = Some a)"
  by (auto simp: z_enum_def split: option.splits json.splits)

lemma createRequestObject_Some:
  assumes "fst (createRequestObject kvs) = Some v"
  shows "js_prop kvs ''startDate'' = Some (JStr (p_startDate v))"
    and "js_prop kvs ''endDate'' = Some (JStr (p_endDate v))"
    and "\<exists>s. z_default ''Pending'' (js_prop kvs ''status'') = Some (JStr s) \<and>
             map_of StatusEnum s = Some (p_status v)"
  using assms
  by (auto simp: createRequestObject_def Let_def bind_eq_Some_conv z_string_fst z_enum_fst)

lemma is_string_fst: "is_string v \<Longrightarrow> \<exists>s. fst (z_string chk code key v) = Some s"
  by (auto simp: is_string_def z_string_def split: option.splits json.splits)

lemma is_enum_fst: "is_enum vals v \<Longrightarrow> \<exists>a. fst (z_enum vals key v) = Some a"
  by (auto simp: is_enum_def z_enum_def split: option.splits json.splits)

lemma is_string_iff: "is_string v \<longleftrightarrow> (\<exists>s. v = Some (JStr s))"
  by (auto simp: is_string_def split: option.splits json.splits)

lemma is_enum_iff: "is_enum vals v \<longleftrightarrow> (\<exists>s a. v = Some (JStr s) \<and> map_of vals s = Some a)"
  by (auto simp: is_enum_def split: option.splits json.splits)

lemma well_typed_not_aborted:
  assumes "well_typed kvs"
  shows "\<exists>v. fst (createRequestObject kvs) = Some v"
  using assms
  by (auto simp: well_typed_def createRequestObject_def Let_def z_string_def z_enum_def
      z_default_def is_string_iff is_enum_iff StatusEnum_def)

lemma fieldErrors_mem: "([k], c) \<in> set iss \<Longrightarrow> k \<in> fst ` set (fieldErrors iss)"
  by (force simp: fieldErrors_def image_iff)

lemma refine_endDate_False:
  "getTime (p_endDate v) = Some te \<Longrightarrow> getTime (p_startDate v) = Some ts \<Longrightarrow> te < ts
   \<Longrightarrow> \<not> refine_endDate getTime v"
  by (simp add: refine_endDate_def)

lemma safeParse_Inr: "safeParse r = Inr x \<longleftrightarrow> r = (Some x, [])"
  by (cases r) (auto simp: safeParse_def split: option.splits)

text \<open>The routes on the example data.\<close>

lemma approve_example:
  "post_requests_approve (Some boss) ''r1'' (JObj [(''signatureDataUrl'', JStr png)]) noon
     [pending_row] = (Ok (Some approved_row), [approved_row])"
  by code_simp

lemma update_example:
  "put_requests_status (Some boss) ''r1'' (JObj [(''status'', JStr ''Approved'')]) [pending_row]
     = (Ok (Some (pending_row\<lparr>status := Approved\<rparr>)), [pending_row\<lparr>status := Approved\<rparr>])"
  by code_simp

lemma reject_example:
  "put_requests_status (Some boss) ''r1'' (JObj [(''status'', JStr ''Rejected'')]) [approved_row]
     = (Ok (Some (approved_row\<lparr>status := Rejected\<rparr>)), [approved_row\<lparr>status := Rejected\<rparr>])"
  by code_simp

lemma submit_example:
  "post_requests iso_date_getTime (Some staff) ''r9'' (JObj leave_body) []
     = (Created (Some submitted_row), [submitted_row])"
  by code_simp

lemma reachable_pending: "reachable getTime [pending_row]"
  by (rule reachable.initial) (simp add: approver_unset_def pending_row_def)

lemma reachable_approved: "reachable getTime [approved_row]"
  using reachable.approve [OF reachable_pending, of getTime "Some boss" "''r1''"
      "JObj [(''signatureDataUrl'', JStr png)]" noon]
  by (simp add: approve_example)


subsection \<open>Approval with signature\<close>

text \<open>
  C1. Approval is not idempotent. For a manager or admin and a body whose
  \<^verbatim>\<open>signatureDataUrl\<close> is a PNG or JPEG data URL: when the row found for the id is
  \<open>Approved\<close>, the route answers \<open>Conflict\<close> and leaves the table alone; when it is
  \<open>Pending\<close>, the route succeeds, the row returned and stored is the old one with
  \<open>status = Approved\<close>, \<open>managerSignature\<close> the payload's signature,
  \<open>managerSignerId\<close> the caller's id and \<open>managerSignedAt\<close> the time stamp of the clock,
  and a second call on the new table answers \<open>Conflict\<close>.
\<close>

theorem approve_not_idempotent:
  assumes role: "user_role usr = Manager \<or> user_role usr = Admin"
    and payload: "js_prop kvs ''signatureDataUrl'' = Some (JStr sig)" "signature_regex sig"
    and found: "select_by_id rows rid = Some r"
  shows "(status r = Approved \<longrightarrow>
            post_requests_approve (Some usr) rid (JObj kvs) now rows = (Fail Conflict, rows)) \<and>
         (status r = Pending \<longrightarrow>
            (\<exists>r' rows'.
               post_requests_approve (Some usr) rid (JObj kvs) now rows = (Ok (Some r'), rows') \<and>
               r' = r\<lparr>status := Approved, managerSignature := Some sig,
                       managerSignerId := Some (user_id usr),
                       managerSignedAt := Some (timestamp now)\<rparr> \<and>
               select_by_id rows' rid = Some r' \<and>
               post_requests_approve (Some usr) rid (JObj kvs) now' rows' = (Fail Conflict, rows')))"
proof -
  have rid: "requestId r = rid"
    using found by (auto simp: select_by_id_def find_Some_iff)
  have parse: "safeParse (approveWithSignatureSchema (JObj kvs)) = Inr sig"
    using payload by (simp add: approveWithSignatureSchema_def z_string_def safeParse_def)
  have guards: "authRequired (Some usr) = None" "ensureRole [Manager, Admin] (Some usr) = None"
    using role by (auto simp: authRequired_def ensureRole_def)
  let ?f = "\<lambda>r. r\<lparr>status := Approved, managerSignature := Some sig,
                    managerSignerId := Some (user_id usr),
                    managerSignedAt := Some (timestamp now)\<rparr>"
  have sel: "select_by_id (update_by_id ?f rid rows) rid = Some (?f r)"
    using found rid by (intro select_by_id_update) simp_all
  show ?thesis
    using found sel
    by (simp add: post_requests_approve_def guards parse Let_def)
qed

theorem approve_not_idempotent_witness:
  "(\<exists>r' rows'.
      post_requests_approve (Some boss) ''r1'' (JObj [(''signatureDataUrl'', JStr png)]) noon
        [pending_row] = (Ok (Some r'), rows') \<and>
      r' = approved_row \<and> select_by_id rows' ''r1'' = Some r' \<and>
      post_requests_approve (Some boss) ''r1'' (JObj [(''signatureDataUrl'', JStr png)]) noon
        rows' = (Fail Conflict, rows')) \<and>
   post_requests_approve (Some boss) ''r1'' (JObj [(''signatureDataUrl'', JStr png)]) noon
     [approved_row] = (Fail Conflict, [approved_row])"
proof -
  have role: "user_role boss = Manager \<or> user_role boss = Admin"
    by (simp add: boss_def)
  have p1: "js_prop [(''signatureDataUrl'', JStr png)] ''signatureDataUrl'' = Some (JStr png)"
    by (simp add: js_prop_def)
  have p2: "signature_regex png"
    by (simp add: signature_regex_def png_def)
  have f1: "select_by_id [pending_row] ''r1'' = Some pending_row"
    by (simp add: select_by_id_def pending_row_def)
  have f2: "select_by_id [approved_row] ''r1'' = Some approved_row"
    by (simp add: select_by_id_def pending_row_def approved_row_def)
  have s1: "status pending_row = Pending"
    by (simp add: pending_row_def)
  have s2: "status approved_row = Approved"
    by (simp add: approved_row_def)
  have ts: "timestamp noon = ''2025-06-15T12:00:07''"
    by (simp add: noon_def clock_defs)
  have r': "pending_row\<lparr>status := Approved, managerSignature := Some png,
              managerSignerId := Some (user_id boss),
              managerSignedAt := Some (timestamp noon)\<rparr> = approved_row"
    by (simp add: ts approved_row_def boss_def)
  have a: "\<exists>r' rows'.
      post_requests_approve (Some boss) ''r1'' (JObj [(''signatureDataUrl'', JStr png)]) noon
        [pending_row] = (Ok (Some r'), rows') \<and>
      r' = approved_row \<and> select_by_id rows' ''r1'' = Some r' \<and>
      post_requests_approve (Some boss) ''r1'' (JObj [(''signatureDataUrl'', JStr png)]) noon
        rows' = (Fail Conflict, rows')"
    using approve_not_idempotent [OF role p1 p2 f1, of noon noon] s1 r' by simp
  have b: "post_requests_approve (Some boss) ''r1'' (JObj [(''signatureDataUrl'', JStr png)]) noon
     [approved_row] = (Fail Conflict, [approved_row])"
    using approve_not_idempotent [OF role p1 p2 f2, of noon noon] s2 by simp
  show ?thesis using a b by (rule conjI)
qed

subsection \<open>Role enforcement\<close>

text \<open>Behind the body parser, \<^verbatim>\<open>ensureRole\<close> answers before either handler runs.\<close>

lemma ensureRole_forbids:
  assumes "user_role usr = Employee \<or> user_role usr = Hr"
  shows "put_requests_status (Some usr) rid body rows = (Fail Forbidden, rows) \<and>
         post_requests_approve (Some usr) rid body' now rows = (Fail Forbidden, rows)"
  using assms
  by (auto simp: put_requests_status_def post_requests_approve_def authRequired_def ensureRole_def)

lemma express_json_passes:
  "raw = NoJson \<or> (\<exists>kvs. raw = Json (JObj kvs)) \<or> (\<exists>xs. raw = Json (JArr xs))
   \<Longrightarrow> \<exists>body. express_json raw = Inr body"
  by (auto simp: express_json_def)

lemma express_json_refuses:
  "\<not> (raw = NoJson \<or> (\<exists>kvs. raw = Json (JObj kvs)) \<or> (\<exists>xs. raw = Json (JArr xs)))
   \<Longrightarrow> \<exists>e. express_json raw = Inl e \<and>
           (e = BadRequest \<or> e = PayloadTooLarge \<or> e = UnsupportedMediaType)"
  by (cases raw) (auto simp: express_json_def split: json.splits)

text \<open>
  C4, as the application has it. Let the caller's role be \<open>Employee\<close> or \<open>Hr\<close>. For
  every request whose body the JSON body parser passes on (no JSON body, or the JSON text
  of an object or an array within the size limit), the status request and the approval
  request are answered \<open>Forbidden\<close>, whatever the id, the content of the body and the
  table, and the table is unchanged: \<^verbatim>\<open>ensureRole\<close> runs before the schema and before
  any access to the table. Every other body is answered by the body parser, before the
  role is looked at, with 400, 413 or 415, and the table is unchanged as well.
\<close>

theorem employee_hr_forbidden:
  assumes role: "user_role usr = Employee \<or> user_role usr = Hr"
  shows "(raw = NoJson \<or> (\<exists>kvs. raw = Json (JObj kvs)) \<or> (\<exists>xs. raw = Json (JArr xs)) \<longrightarrow>
            app_put_requests_status (Some usr) rid raw rows = (Fail Forbidden, rows) \<and>
            app_post_requests_approve (Some usr) rid raw now rows = (Fail Forbidden, rows)) \<and>
         (\<not> (raw = NoJson \<or> (\<exists>kvs. raw = Json (JObj kvs)) \<or> (\<exists>xs. raw = Json (JArr xs))) \<longrightarrow>
            (\<exists>e. (e = BadRequest \<or> e = PayloadTooLarge \<or> e = UnsupportedMediaType) \<and>
                 app_put_requests_status (Some usr) rid raw rows = (Fail e, rows) \<and>
                 app_post_requests_approve (Some usr) rid raw now rows = (Fail e, rows)))"
proof (intro conjI impI)
  assume "raw = NoJson \<or> (\<exists>kvs. raw = Json (JObj kvs)) \<or> (\<exists>xs. raw = Json (JArr xs))"
  then obtain body where "express_json raw = Inr body"
    using express_json_passes by blast
  then show "app_put_requests_status (Some usr) rid raw rows = (Fail Forbidden, rows)"
    and "app_post_requests_approve (Some usr) rid raw now rows = (Fail Forbidden, rows)"
    using ensureRole_forbids [OF role]
    by (simp_all add: app_put_requests_status_def app_post_requests_approve_def)
next
  assume "\<not> (raw = NoJson \<or> (\<exists>kvs. raw = Json (JObj kvs)) \<or> (\<exists>xs. raw = Json (JArr xs)))"
  then obtain e where "express_json raw = Inl e"
    and "e = BadRequest \<or> e = PayloadTooLarge \<or> e = UnsupportedMediaType"
    using express_json_refuses by blast
  then show "\<exists>e. (e = BadRequest \<or> e = PayloadTooLarge \<or> e = UnsupportedMediaType) \<and>
                 app_put_requests_status (Some usr) rid raw rows = (Fail e, rows) \<and>
                 app_post_requests_approve (Some usr) rid raw now rows = (Fail e, rows)"
    by (auto simp: app_put_requests_status_def app_post_requests_approve_def)
qed

theorem employee_hr_forbidden_witness:
  "(user_role staff = Employee \<or> user_role staff = Hr) \<and>
   app_put_requests_status (Some staff) ''r1''
     (Json (JObj [(''status'', JStr ''Approved'')])) [pending_row]
     = (Fail Forbidden, [pending_row]) \<and>
   app_post_requests_approve (Some staff) ''r1''
     (Json (JObj [(''status'', JStr ''Approved'')])) noon [pending_row]
     = (Fail Forbidden, [pending_row]) \<and>
   (\<exists>e. (e = BadRequest \<or> e = PayloadTooLarge \<or> e = UnsupportedMediaType) \<and>
        app_put_requests_status (Some staff) ''r1'' Malformed [pending_row]
          = (Fail e, [pending_row]) \<and>
        app_post_requests_approve (Some staff) ''r1'' Malformed noon [pending_row]
          = (Fail e, [pending_row]))"
proof -
  have h: "user_role staff = Employee \<or> user_role staff = Hr"
    by (simp add: staff_def)
  have a: "Json (JObj [(''status'', JStr ''Approved'')]) = NoJson \<or>
           (\<exists>kvs. Json (JObj [(''status'', JStr ''Approved'')]) = Json (JObj kvs)) \<or>
           (\<exists>xs. Json (JObj [(''status'', JStr ''Approved'')]) = Json (JArr xs))"
    by simp
  have b: "\<not> (Malformed = NoJson \<or> (\<exists>kvs. Malformed = Json (JObj kvs)) \<or>
               (\<exists>xs. Malformed = Json (JArr xs)))"
    by simp
  show ?thesis
    using h a b
      employee_hr_forbidden [OF h, of "Json (JObj [(''status'', JStr ''Approved'')])"
        "''r1''" "[pending_row]" noon]
      employee_hr_forbidden [OF h, of Malformed "''r1''" "[pending_row]" noon]
    by blast
qed

text \<open>
  An employee who sends the JSON text \<^verbatim>\<open>5\<close>, or text that is not JSON, is answered 400
  by the body parser and not \<open>Forbidden\<close>.
\<close>

theorem employee_bad_body_counterexample:
  "user_role staff = Employee \<and>
   app_put_requests_status (Some staff) ''r1'' (Json (JNum 5)) [pending_row]
     = (Fail BadRequest, [pending_row]) \<and>
   app_post_requests_approve (Some staff) ''r1'' Malformed noon [pending_row]
     = (Fail BadRequest, [pending_row]) \<and>
   http_status (Fail BadRequest :: LeaveRequest option response) = 400"
  by (simp add: staff_def app_put_requests_status_def app_post_requests_approve_def
      express_json_def)

subsection \<open>Isolation of the caller's list\<close>

text \<open>
  C5. For every authenticated caller and every table, the list of \<^verbatim>\<open>/api/requests/mine\<close>
  succeeds and each row of it is a row of the table whose \<open>requesterId\<close> is the
  caller's id.
\<close>

theorem mine_isolation:
  "\<exists>rs. get_requests_mine (Some usr) rows = Ok rs \<and>
        (\<forall>r \<in> set rs. requesterId r = Some (user_id usr) \<and> r \<in> set rows)"
  by (simp add: get_requests_mine_def authRequired_def set_order_by)

theorem mine_isolation_witness:
  "get_requests_mine (Some staff) [pending_row\<lparr>requesterId := Some ''u-other''\<rparr>, pending_row]
     = Ok [pending_row] \<and>
   (\<exists>rs. get_requests_mine (Some staff)
            [pending_row\<lparr>requesterId := Some ''u-other''\<rparr>, pending_row] = Ok rs \<and>
         (\<forall>r \<in> set rs. requesterId r = Some (user_id staff) \<and>
            r \<in> set [pending_row\<lparr>requesterId := Some ''u-other''\<rparr>, pending_row]))"
proof -
  have h: "get_requests_mine (Some staff)
             [pending_row\<lparr>requesterId := Some ''u-other''\<rparr>, pending_row] = Ok [pending_row]"
    by (simp add: get_requests_mine_def authRequired_def order_by_dateRequested_desc_def
        example_defs)
  show ?thesis by (rule conjI [OF h mine_isolation])
qed

subsection \<open>Missing ids\<close>

text \<open>
  C7. When no row has the id, the status route and the approval route, called by a
  manager or admin with a body that their schema accepts, answer \<open>NotFound\<close> and
  leave the table unchanged; and for no caller, body or clock does either route answer
  with success for that id.
\<close>

theorem missing_id_not_found:
  assumes role: "user_role usr = Manager \<or> user_role usr = Admin"
    and missing: "rid \<notin> requestId ` set rows"
    and st: "safeParse (updateStatusSchema body) = Inr st"
    and sig: "safeParse (approveWithSignatureSchema body') = Inr sig"
  shows "put_requests_status (Some usr) rid body rows = (Fail NotFound, rows) \<and>
         post_requests_approve (Some usr) rid body' now rows = (Fail NotFound, rows) \<and>
         (\<forall>x. fst (put_requests_status u rid b rows) \<noteq> Ok x) \<and>
         (\<forall>x. fst (post_requests_approve u rid b now' rows) \<noteq> Ok x)"
  using assms
  by (auto simp: put_requests_status_def post_requests_approve_def authRequired_def ensureRole_def
      select_by_id_None split: option.splits sum.splits)

theorem missing_id_not_found_witness:
  "(user_role boss = Manager \<or> user_role boss = Admin) \<and>
   ''r0'' \<notin> requestId ` set [pending_row] \<and>
   safeParse (updateStatusSchema (JObj [(''status'', JStr ''Rejected'')])) = Inr Rejected \<and>
   safeParse (approveWithSignatureSchema (JObj [(''signatureDataUrl'', JStr png)])) = Inr png \<and>
   put_requests_status (Some boss) ''r0'' (JObj [(''status'', JStr ''Rejected'')]) [pending_row]
     = (Fail NotFound, [pending_row]) \<and>
   post_requests_approve (Some boss) ''r0'' (JObj [(''signatureDataUrl'', JStr png)]) noon
     [pending_row] = (Fail NotFound, [pending_row])"
proof -
  have h1: "user_role boss = Manager \<or> user_role boss = Admin"
    by (simp add: boss_def)
  have h2: "''r0'' \<notin> requestId ` set [pending_row]"
    by (simp add: pending_row_def)
  have h3: "safeParse (updateStatusSchema (JObj [(''status'', JStr ''Rejected'')])) = Inr Rejected"
    by (simp add: route_defs)
  have h4: "safeParse (approveWithSignatureSchema (JObj [(''signatureDataUrl'', JStr png)]))
              = Inr png"
    by (simp add: route_defs png_def)
  show ?thesis
    using h1 h2 h3 h4 missing_id_not_found [OF h1 h2 h3 h4, of noon] by blast
qed

subsection \<open>Frame of the status change\<close>

text \<open>
  C10. A successful status change has parsed a status \<open>st\<close> from the body; the new
  table has the rows of the old one in the same places, a row with the given id
  differing from its old value in the field \<open>status\<close> only (now \<open>st\<close>), every other row
  identical.
\<close>

theorem update_status_frame:
  assumes "put_requests_status u rid body rows = (Ok x, rows')"
  shows "\<exists>st. safeParse (updateStatusSchema body) = Inr st \<and> length rows' = length rows \<and>
    (\<forall>i < length rows.
       rows' ! i = (if requestId (rows ! i) = rid then (rows ! i)\<lparr>status := st\<rparr> else rows ! i))"
  using assms
  by (auto simp: put_requests_status_def update_by_id_def Let_def
      split: option.splits sum.splits)

theorem update_status_frame_witness:
  "put_requests_status (Some boss) ''r1'' (JObj [(''status'', JStr ''Rejected'')])
     [pending_row, pending_row\<lparr>requestId := ''r2''\<rparr>]
   = (Ok (Some (pending_row\<lparr>status := Rejected\<rparr>)),
      [pending_row\<lparr>status := Rejected\<rparr>, pending_row\<lparr>requestId := ''r2''\<rparr>]) \<and>
   (\<exists>st. safeParse (updateStatusSchema (JObj [(''status'', JStr ''Rejected'')])) = Inr st \<and>
     length [pending_row\<lparr>status := Rejected\<rparr>, pending_row\<lparr>requestId := ''r2''\<rparr>] =
     length [pending_row, pending_row\<lparr>requestId := ''r2''\<rparr>] \<and>
     (\<forall>i < length [pending_row, pending_row\<lparr>requestId := ''r2''\<rparr>].
        [pending_row\<lparr>status := Rejected\<rparr>, pending_row\<lparr>requestId := ''r2''\<rparr>] ! i =
        (if requestId ([pending_row, pending_row\<lparr>requestId := ''r2''\<rparr>] ! i) = ''r1''
         then ([pending_row, pending_row\<lparr>requestId := ''r2''\<rparr>] ! i)\<lparr>status := st\<rparr>
         else [pending_row, pending_row\<lparr>requestId := ''r2''\<rparr>] ! i)))"
proof -
  have h: "put_requests_status (Some boss) ''r1'' (JObj [(''status'', JStr ''Rejected'')])
     [pending_row, pending_row\<lparr>requestId := ''r2''\<rparr>]
   = (Ok (Some (pending_row\<lparr>status := Rejected\<rparr>)),
      [pending_row\<lparr>status := Rejected\<rparr>, pending_row\<lparr>requestId := ''r2''\<rparr>])"
    by (simp add: route_defs example_defs)
  show ?thesis by (rule conjI [OF h update_status_frame [OF h]])
qed

subsection \<open>The approver's columns\<close>

text \<open>Each route keeps the columns of every row all unset or all set.\<close>

lemma put_preserves_inv:
  "list_all approver_inv rows \<Longrightarrow> list_all approver_inv (snd (put_requests_status u rid body rows))"
  by (auto simp: put_requests_status_def update_by_id_def Let_def list_all_iff approver_inv_def
      approver_unset_def approver_set_def split: option.splits sum.splits)

lemma approve_preserves_inv:
  "list_all approver_inv rows
   \<Longrightarrow> list_all approver_inv (snd (post_requests_approve u rid body now rows))"
  by (auto simp: post_requests_approve_def update_by_id_def Let_def list_all_iff approver_inv_def
      approver_unset_def approver_set_def split: option.splits sum.splits)

lemma submit_preserves_inv:
  "list_all approver_inv rows
   \<Longrightarrow> list_all approver_inv (snd (post_requests getTime u newId body rows))"
  by (auto simp: post_requests_def Let_def list_all_iff approver_inv_def
      approver_unset_def approver_set_def split: option.splits sum.splits)

lemma reachable_inv: "reachable getTime rows \<Longrightarrow> list_all approver_inv rows"
proof (induction rule: reachable.induct)
  case (initial rows)
  then show ?case by (simp add: list_all_iff approver_inv_def)
next
  case (submit rows u newId body)
  then show ?case by (simp add: submit_preserves_inv)
next
  case (update rows u rid body)
  then show ?case by (simp add: put_preserves_inv)
next
  case (approve rows u rid body now)
  then show ?case by (simp add: approve_preserves_inv)
qed

lemma approve_ok_sets:
  assumes "post_requests_approve u rid body now rows = (Ok x, rows')"
  shows "\<exists>r. x = Some r \<and> r \<in> set rows' \<and> requestId r = rid \<and> status r = Approved \<and> approver_set r"
proof -
  from assms obtain usr sig ex where
    u: "u = Some usr" and ex: "select_by_id rows rid = Some ex" and
    rows': "rows' = update_by_id (\<lambda>r. r\<lparr>status := Approved, managerSignature := Some sig,
                                  managerSignerId := Some (user_id usr),
                                  managerSignedAt := Some (timestamp now)\<rparr>) rid rows" and
    x: "x = select_by_id rows' rid"
    by (auto simp: post_requests_approve_def Let_def split: option.splits sum.splits if_splits)
  have id: "requestId ex = rid" using ex by (simp add: select_by_id_mem)
  have "select_by_id rows' rid = Some (ex\<lparr>status := Approved, managerSignature := Some sig,
                                  managerSignerId := Some (user_id usr),
                                  managerSignedAt := Some (timestamp now)\<rparr>)"
    unfolding rows' using ex id by (intro select_by_id_update) simp_all
  then show ?thesis
    using x by (auto simp: approver_set_def dest: select_by_id_mem)
qed

lemma put_ok_keeps:
  assumes "put_requests_status u rid body rows = (Ok x, rows')"
  shows "map managerSignature rows' = map managerSignature rows \<and>
         map managerSignerId rows' = map managerSignerId rows \<and>
         map managerSignedAt rows' = map managerSignedAt rows"
  using assms
  by (auto simp: put_requests_status_def update_by_id_def Let_def
      split: option.splits sum.splits)

lemma submit_created_unset:
  assumes "post_requests getTime u newId body rows = (Created x, rows')"
  shows "\<exists>r. x = Some r \<and> rows' = rows @ [r] \<and> approver_unset r"
  using assms
  by (auto simp: post_requests_def Let_def approver_unset_def select_by_id_append_new
      split: option.splits sum.splits if_splits)

text \<open>
  C2, as the routes have it. In every reachable table the columns \<open>managerSignature\<close>,
  \<open>managerSignerId\<close> and \<open>managerSignedAt\<close> of a row are all unset or all set. A
  successful approval returns and stores a row with \<open>status = Approved\<close> and the three
  set. A successful status change leaves the three columns of every row as they were,
  whatever status it writes; a successful submission appends a row with the three unset,
  whatever status it stores.
\<close>

theorem approver_fields_together:
  "(reachable getTime rows \<longrightarrow> list_all (\<lambda>r. approver_unset r \<or> approver_set r) rows) \<and>
   (post_requests_approve u1 rid1 body1 now rows1 = (Ok x1, rows1') \<longrightarrow>
      (\<exists>r. x1 = Some r \<and> r \<in> set rows1' \<and> requestId r = rid1 \<and> status r = Approved \<and>
           approver_set r)) \<and>
   (put_requests_status u2 rid2 body2 rows2 = (Ok x2, rows2') \<longrightarrow>
      map managerSignature rows2' = map managerSignature rows2 \<and>
      map managerSignerId rows2' = map managerSignerId rows2 \<and>
      map managerSignedAt rows2' = map managerSignedAt rows2) \<and>
   (post_requests getTime u3 newId body3 rows3 = (Created x3, rows3') \<longrightarrow>
      (\<exists>r. x3 = Some r \<and> rows3' = rows3 @ [r] \<and> approver_unset r))"
  using reachable_inv [of getTime rows] approve_ok_sets [of u1 rid1 body1 now rows1 x1 rows1']
    put_ok_keeps [of u2 rid2 body2 rows2 x2 rows2']
    submit_created_unset [of getTime u3 newId body3 rows3 x3 rows3']
  unfolding approver_inv_def by blast

theorem approver_fields_together_witness:
  "reachable iso_date_getTime [approved_row] \<and>
   list_all (\<lambda>r. approver_unset r \<or> approver_set r) [approved_row] \<and>
   post_requests_approve (Some boss) ''r1'' (JObj [(''signatureDataUrl'', JStr png)]) noon
     [pending_row] = (Ok (Some approved_row), [approved_row]) \<and>
   (\<exists>r. Some approved_row = Some r \<and> r \<in> set [approved_row] \<and> requestId r = ''r1'' \<and>
        status r = Approved \<and> approver_set r) \<and>
   put_requests_status (Some boss) ''r1'' (JObj [(''status'', JStr ''Rejected'')]) [approved_row]
     = (Ok (Some (approved_row\<lparr>status := Rejected\<rparr>)), [approved_row\<lparr>status := Rejected\<rparr>]) \<and>
   map managerSignature [approved_row\<lparr>status := Rejected\<rparr>] = map managerSignature [approved_row] \<and>
   post_requests iso_date_getTime (Some staff) ''r9'' (JObj leave_body) []
     = (Created (Some submitted_row), [submitted_row]) \<and>
   (\<exists>r. Some submitted_row = Some r \<and> [submitted_row] = [] @ [r] \<and> approver_unset r)"
  using reachable_approved [of iso_date_getTime] approve_example reject_example submit_example
    approver_fields_together [of iso_date_getTime "[approved_row]"
      "Some boss" "''r1''" "JObj [(''signatureDataUrl'', JStr png)]" noon "[pending_row]"
      "Some approved_row" "[approved_row]"
      "Some boss" "''r1''" "JObj [(''status'', JStr ''Rejected'')]" "[approved_row]"
      "Some (approved_row\<lparr>status := Rejected\<rparr>)" "[approved_row\<lparr>status := Rejected\<rparr>]"
      "Some staff" "''r9''" "JObj leave_body" "[]" "Some submitted_row" "[submitted_row]"]
  by blast

text \<open>
  The status route makes a row \<open>Approved\<close> with the three columns unset, and a row that
  was approved with a signature keeps the three columns when the status route rejects it.
\<close>

theorem approver_fields_counterexample:
  "put_requests_status (Some boss) ''r1'' (JObj [(''status'', JStr ''Approved'')]) [pending_row]
     = (Ok (Some (pending_row\<lparr>status := Approved\<rparr>)), [pending_row\<lparr>status := Approved\<rparr>]) \<and>
   reachable iso_date_getTime [pending_row\<lparr>status := Approved\<rparr>] \<and>
   status (pending_row\<lparr>status := Approved\<rparr>) = Approved \<and>
   approver_unset (pending_row\<lparr>status := Approved\<rparr>) \<and>
   reachable iso_date_getTime [approved_row\<lparr>status := Rejected\<rparr>] \<and>
   status (approved_row\<lparr>status := Rejected\<rparr>) \<noteq> Approved \<and>
   approver_set (approved_row\<lparr>status := Rejected\<rparr>)"
proof -
  have a: "reachable iso_date_getTime [pending_row\<lparr>status := Approved\<rparr>]"
    using reachable.update [OF reachable_pending, of iso_date_getTime "Some boss" "''r1''"
        "JObj [(''status'', JStr ''Approved'')]"]
    by (simp add: update_example)
  have b: "reachable iso_date_getTime [approved_row\<lparr>status := Rejected\<rparr>]"
    using reachable.update [OF reachable_approved, of iso_date_getTime "Some boss" "''r1''"
        "JObj [(''status'', JStr ''Rejected'')]"]
    by (simp add: reject_example)
  have c: "approver_unset (pending_row\<lparr>status := Approved\<rparr>)"
      "approver_set (approved_row\<lparr>status := Rejected\<rparr>)"
    by (simp_all add: approver_unset_def approver_set_def pending_row_def approved_row_def)
  show ?thesis using a b c update_example by simp
qed

subsection \<open>Submission\<close>

text \<open>
  C3, as the route has it. For an employee or admin, a body that the schema accepts and a
  generated id that the table does not have, the route answers 201 with the row it
  appended: \<open>requestId\<close> is the generated id, \<open>requesterId\<close> is the caller's id whatever
  the body holds, \<open>status\<close> is \<open>Pending\<close> when the body has no key \<^verbatim>\<open>status\<close> and the
  status named by that key otherwise, and the caller's own list contains the row.
  Whenever the route answers 201, the id was not in the table and the caller was an
  employee or admin.
\<close>

theorem submit_binds_caller:
  assumes role: "user_role usr = Employee \<or> user_role usr = Admin"
    and accepted: "safeParse (createRequestSchema getTime (JObj kvs)) = Inr p"
    and fresh: "newId \<notin> requestId ` set rows"
  shows "(\<exists>r. post_requests getTime (Some usr) newId (JObj kvs) rows
               = (Created (Some r), rows @ [r]) \<and>
             requestId r = newId \<and> requesterId r = Some (user_id usr) \<and>
             (js_prop kvs ''status'' = None \<longrightarrow> status r = Pending) \<and>
             (\<forall>s. js_prop kvs ''status'' = Some (JStr s) \<longrightarrow>
                    map_of StatusEnum s = Some (status r)) \<and>
             (\<exists>rs. get_requests_mine (Some usr) (rows @ [r]) = Ok rs \<and> r \<in> set rs)) \<and>
         (post_requests getTime u' newId' body' rows1 = (Created x, rows1') \<longrightarrow>
            newId' \<notin> requestId ` set rows1 \<and>
            (\<exists>usr'. u' = Some usr' \<and> (user_role usr' = Employee \<or> user_role usr' = Admin)))"
proof -
  have guards: "authRequired (Some usr) = None" "ensureRole [Employee, Admin] (Some usr) = None"
    using role by (auto simp: authRequired_def ensureRole_def)
  have created: "post_requests getTime u' newId' body' rows1 = (Created x, rows1') \<longrightarrow>
            newId' \<notin> requestId ` set rows1 \<and>
            (\<exists>usr'. u' = Some usr' \<and> (user_role usr' = Employee \<or> user_role usr' = Admin))"
    by (cases u'; cases "user_role (the u')")
       (auto simp: post_requests_def authRequired_def ensureRole_def
          split: sum.splits if_splits)
  have "fst (createRequestObject kvs) = Some p"
    using accepted
    by (auto simp: safeParse_Inr createRequestSchema_def split: prod.splits option.splits)
  from createRequestObject_Some(3) [OF this]
  obtain s where s: "z_default ''Pending'' (js_prop kvs ''status'') = Some (JStr s)"
    and st: "map_of StatusEnum s = Some (p_status p)"
    by blast
  have absent: "js_prop kvs ''status'' = None \<Longrightarrow> p_status p = Pending"
    using s st by (simp add: z_default_def StatusEnum_def)
  have present: "js_prop kvs ''status'' = Some (JStr s') \<Longrightarrow> map_of StatusEnum s' = Some (p_status p)"
    for s'
    using s st by (simp add: z_default_def)
  have "\<exists>r. post_requests getTime (Some usr) newId (JObj kvs) rows
               = (Created (Some r), rows @ [r]) \<and>
             requestId r = newId \<and> requesterId r = Some (user_id usr) \<and>
             (js_prop kvs ''status'' = None \<longrightarrow> status r = Pending) \<and>
             (\<forall>s. js_prop kvs ''status'' = Some (JStr s) \<longrightarrow>
                    map_of StatusEnum s = Some (status r)) \<and>
             (\<exists>rs. get_requests_mine (Some usr) (rows @ [r]) = Ok rs \<and> r \<in> set rs)"
    using fresh absent present
    by (simp add: post_requests_def guards accepted Let_def select_by_id_append_new
        get_requests_mine_def set_order_by)
  then show ?thesis
    using created by (rule conjI)
qed

theorem submit_binds_caller_witness:
  "(user_role staff = Employee \<or> user_role staff = Admin) \<and>
   safeParse (createRequestSchema iso_date_getTime (JObj leave_body)) = Inr leave_parsed \<and>
   ''r9'' \<notin> requestId ` set [pending_row] \<and>
   (\<exists>r. post_requests iso_date_getTime (Some staff) ''r9'' (JObj leave_body) [pending_row]
               = (Created (Some r), [pending_row] @ [r]) \<and>
             requestId r = ''r9'' \<and> requesterId r = Some (user_id staff) \<and>
             (js_prop leave_body ''status'' = None \<longrightarrow> status r = Pending) \<and>
             (\<forall>s. js_prop leave_body ''status'' = Some (JStr s) \<longrightarrow>
                    map_of StatusEnum s = Some (status r)) \<and>
             (\<exists>rs. get_requests_mine (Some staff) ([pending_row] @ [r]) = Ok rs \<and> r \<in> set rs)) \<and>
   js_prop leave_body ''status'' = None \<and>
   post_requests iso_date_getTime (Some staff) ''r9'' (JObj leave_body) []
     = (Created (Some submitted_row), [submitted_row]) \<and>
   ''r9'' \<notin> requestId ` set ([] :: LeaveRequest list) \<and>
   (\<exists>usr'. Some staff = Some usr' \<and> (user_role usr' = Employee \<or> user_role usr' = Admin))"
proof -
  have h1: "user_role staff = Employee \<or> user_role staff = Admin"
    by (simp add: staff_def)
  have h2: "safeParse (createRequestSchema iso_date_getTime (JObj leave_body)) = Inr leave_parsed"
    by code_simp
  have h3: "''r9'' \<notin> requestId ` set [pending_row]"
    by (simp add: pending_row_def)
  have h4: "js_prop leave_body ''status'' = None"
    by code_simp
  show ?thesis
    using h1 h2 h3 h4 submit_example
      submit_binds_caller [OF h1 h2 h3, of "Some staff" "''r9''" "JObj leave_body" "[]"
        "Some submitted_row" "[submitted_row]"]
    by blast
qed

text \<open>A body with \<^verbatim>\<open>status: "Approved"\<close> is stored as \<open>Approved\<close>.\<close>

theorem submit_status_counterexample:
  "post_requests iso_date_getTime (Some staff) ''r9''
     (JObj (leave_body @ [(''status'', JStr ''Approved'')])) []
     = (Created (Some (submitted_row\<lparr>status := Approved\<rparr>)),
        [submitted_row\<lparr>status := Approved\<rparr>]) \<and>
   status (submitted_row\<lparr>status := Approved\<rparr>) \<noteq> Pending"
  by code_simp

text \<open>
  C6, as the route has it. For an employee or admin and a body whose \<^verbatim>\<open>endDate\<close> and
  \<^verbatim>\<open>startDate\<close> are strings that the engine parses to times with the end strictly
  before the start, the route answers with a validation error and leaves the table
  unchanged; the field errors name \<^verbatim>\<open>endDate\<close> whenever the body is well typed, that is,
  whenever the object schema did not abort and the refinement ran. The times are compared,
  not the strings.
\<close>

theorem end_before_start_rejected:
  assumes role: "user_role usr = Employee \<or> user_role usr = Admin"
    and dates: "js_prop kvs ''endDate'' = Some (JStr e)" "js_prop kvs ''startDate'' = Some (JStr s)"
    and earlier: "getTime e = Some te" "getTime s = Some ts" "te < ts"
  shows "\<exists>fo fi.
           post_requests getTime (Some usr) newId (JObj kvs) rows
             = (Fail (ValidationError fo fi), rows) \<and>
           (well_typed kvs \<longrightarrow> ''endDate'' \<in> fst ` set fi)"
proof -
  have guards: "authRequired (Some usr) = None" "ensureRole [Employee, Admin] (Some usr) = None"
    using role by (auto simp: authRequired_def ensureRole_def)
  obtain val iss where obj: "createRequestObject kvs = (val, iss)"
    by (cases "createRequestObject kvs")
  show ?thesis
  proof (cases val)
    case None
    then have "safeParse (createRequestSchema getTime (JObj kvs)) = Inl iss"
      using obj by (simp add: createRequestSchema_def safeParse_def)
    moreover have "\<not> well_typed kvs"
      using well_typed_not_aborted [of kvs] obj None by auto
    ultimately show ?thesis
      by (simp add: post_requests_def guards validation_error_def)
  next
    case (Some v)
    then have v: "fst (createRequestObject kvs) = Some v"
      using obj by simp
    have "p_endDate v = e" "p_startDate v = s"
      using createRequestObject_Some(1,2) [OF v] dates by simp_all
    then have "\<not> refine_endDate getTime v"
      using earlier by (simp add: refine_endDate_False)
    then have "safeParse (createRequestSchema getTime (JObj kvs))
                 = Inl (iss @ [([''endDate''], custom)])"
      using obj Some by (simp add: createRequestSchema_def safeParse_def)
    moreover have "''endDate'' \<in> fst ` set (fieldErrors (iss @ [([''endDate''], custom)]))"
      by (rule fieldErrors_mem [of _ custom]) simp
    ultimately show ?thesis
      by (simp add: post_requests_def guards validation_error_def)
  qed
qed

theorem end_before_start_rejected_witness:
  "(user_role staff = Employee \<or> user_role staff = Admin) \<and>
   js_prop (leave_body @ [(''endDate'', JStr ''2025-01-09'')]) ''endDate''
     = Some (JStr ''2025-01-09'') \<and>
   js_prop (leave_body @ [(''endDate'', JStr ''2025-01-09'')]) ''startDate''
     = Some (JStr ''2025-01-10'') \<and>
   iso_date_getTime ''2025-01-09'' = Some 1736380800000 \<and>
   iso_date_getTime ''2025-01-10'' = Some 1736467200000 \<and>
   (1736380800000 :: int) < 1736467200000 \<and>
   well_typed (leave_body @ [(''endDate'', JStr ''2025-01-09'')]) \<and>
   (\<exists>fo fi.
      post_requests iso_date_getTime (Some staff) ''r9''
        (JObj (leave_body @ [(''endDate'', JStr ''2025-01-09'')])) [pending_row]
        = (Fail (ValidationError fo fi), [pending_row]) \<and>
      (well_typed (leave_body @ [(''endDate'', JStr ''2025-01-09'')]) \<longrightarrow>
       ''endDate'' \<in> fst ` set fi))"
proof -
  have h1: "user_role staff = Employee \<or> user_role staff = Admin"
    by (simp add: staff_def)
  have h2: "js_prop (leave_body @ [(''endDate'', JStr ''2025-01-09'')]) ''endDate''
              = Some (JStr ''2025-01-09'')"
    by code_simp
  have h3: "js_prop (leave_body @ [(''endDate'', JStr ''2025-01-09'')]) ''startDate''
              = Some (JStr ''2025-01-10'')"
    by code_simp
  have h4: "iso_date_getTime ''2025-01-09'' = Some 1736380800000"
    by code_simp
  have h5: "iso_date_getTime ''2025-01-10'' = Some 1736467200000"
    by code_simp
  have h6: "(1736380800000 :: int) < 1736467200000"
    by simp
  have h7: "well_typed (leave_body @ [(''endDate'', JStr ''2025-01-09'')])"
    by code_simp
  show ?thesis
    using h1 h2 h3 h4 h5 h6 h7
      end_before_start_rejected [OF h1 h2 h3 h4 h5 h6, of "''r9''" "[pending_row]"]
    by blast
qed

text \<open>
  With \<^verbatim>\<open>signatureDataUrl: null\<close> the object schema aborts, the refinement does not run,
  and the field errors do not name \<^verbatim>\<open>endDate\<close> although the end is before the start.
\<close>

theorem end_before_start_counterexample:
  "js_prop (leave_body @ [(''endDate'', JStr ''2025-01-09''), (''signatureDataUrl'', JNull)])
     ''endDate'' = Some (JStr ''2025-01-09'') \<and>
   js_prop (leave_body @ [(''endDate'', JStr ''2025-01-09''), (''signatureDataUrl'', JNull)])
     ''startDate'' = Some (JStr ''2025-01-10'') \<and>
   iso_date_getTime ''2025-01-09'' = Some 1736380800000 \<and>
   iso_date_getTime ''2025-01-10'' = Some 1736467200000 \<and>
   post_requests iso_date_getTime (Some staff) ''r9''
     (JObj (leave_body @ [(''endDate'', JStr ''2025-01-09''), (''signatureDataUrl'', JNull)])) []
     = (Fail (ValidationError [] [(''signatureDataUrl'', [invalid_type])]), [])"
  by code_simp

subsection \<open>Work-log upload without a signature\<close>




subsection \<open>Recent requests\<close>

text \<open>
  C9, as the route has it. For a manager, hr or admin caller the route returns exactly
  the rows whose \<open>dateRequested\<close> is not below the cut-off in the order of the text, with
  no upper bound, ordered by \<open>dateRequested\<close> descending; an employee gets \<open>Forbidden\<close>.
  The cut-off is the text of the same day of the previous month whenever that month has
  the day (December of the year before, from January).
\<close>

theorem recent_rows:
  "(user_role usr \<noteq> Employee \<longrightarrow>
      (\<exists>rs. get_requests_recent (Some usr) now rows = Ok rs \<and>
            mset rs = mset (filter (\<lambda>r. cutStr now \<le> dateRequested r) rows) \<and>
            sorted_wrt (\<lambda>a b. dateRequested b \<le> dateRequested a) rs)) \<and>
   (user_role usr = Employee \<longrightarrow> get_requests_recent (Some usr) now rows = Fail Forbidden) \<and>
   (0 < getMonth now \<and> getDate now \<le> DaysInMonth (getFullYear now) (getMonth now - 1) \<longrightarrow>
      cutStr now = ymd (getFullYear now) (getMonth now - 1) (getDate now)) \<and>
   (getMonth now = 0 \<and> getDate now \<le> 31 \<longrightarrow>
      cutStr now = ymd (getFullYear now - 1) 11 (getDate now))"
proof -
  have "user_role usr \<noteq> Employee \<Longrightarrow> ensureRole [Manager, Hr, Admin] (Some usr) = None"
    by (cases "user_role usr") (simp_all add: ensureRole_def)
  moreover have "user_role usr = Employee
    \<Longrightarrow> ensureRole [Manager, Hr, Admin] (Some usr) = Some Forbidden"
    by (simp add: ensureRole_def)
  moreover have "0 < getMonth now \<and> getDate now \<le> DaysInMonth (getFullYear now) (getMonth now - 1)
    \<Longrightarrow> cutStr now = ymd (getFullYear now) (getMonth now - 1) (getDate now)"
    by (auto simp: cutStr_def setMonth_prev_def Let_def)
  moreover have "getMonth now = 0 \<and> getDate now \<le> 31
    \<Longrightarrow> cutStr now = ymd (getFullYear now - 1) 11 (getDate now)"
    by (auto simp: cutStr_def setMonth_prev_def Let_def DaysInMonth_def)
  ultimately show ?thesis
    by (simp add: get_requests_recent_def authRequired_def mset_order_by sorted_order_by)
qed

theorem recent_rows_witness:
  "user_role boss \<noteq> Employee \<and>
   (\<exists>rs. get_requests_recent (Some boss) noon may_rows = Ok rs \<and>
         mset rs = mset (filter (\<lambda>r. cutStr noon \<le> dateRequested r) may_rows) \<and>
         sorted_wrt (\<lambda>a b. dateRequested b \<le> dateRequested a) rs) \<and>
   get_requests_recent (Some boss) noon may_rows
     = Ok [pending_row, pending_row\<lparr>dateRequested := ''2025-05-15''\<rparr>] \<and>
   (0 < getMonth noon \<and> getDate noon \<le> DaysInMonth (getFullYear noon) (getMonth noon - 1)) \<and>
   cutStr noon = ymd (getFullYear noon) (getMonth noon - 1) (getDate noon) \<and>
   ymd (getFullYear noon) (getMonth noon - 1) (getDate noon) = ''2025-05-15'' \<and>
   user_role staff = Employee \<and>
   get_requests_recent (Some staff) new_year may_rows = Fail Forbidden \<and>
   (getMonth new_year = 0 \<and> getDate new_year \<le> 31) \<and>
   cutStr new_year = ymd (getFullYear new_year - 1) 11 (getDate new_year) \<and>
   ymd (getFullYear new_year - 1) 11 (getDate new_year) = ''2024-12-31''"
proof -
  have h1: "user_role boss \<noteq> Employee"
    by (simp add: boss_def)
  have h2: "0 < getMonth noon \<and> getDate noon \<le> DaysInMonth (getFullYear noon) (getMonth noon - 1)"
    by (simp add: noon_def DaysInMonth_def)
  have h3: "user_role staff = Employee"
    by (simp add: staff_def)
  have h4: "getMonth new_year = 0 \<and> getDate new_year \<le> 31"
    by (simp add: new_year_def)
  have e1: "get_requests_recent (Some boss) noon may_rows
              = Ok [pending_row, pending_row\<lparr>dateRequested := ''2025-05-15''\<rparr>]"
    by code_simp
  have e2: "ymd (getFullYear noon) (getMonth noon - 1) (getDate noon) = ''2025-05-15''"
    by code_simp
  have e3: "ymd (getFullYear new_year - 1) 11 (getDate new_year) = ''2024-12-31''"
    by code_simp
  show ?thesis
    using h1 h2 h3 h4 e1 e2 e3 recent_rows [of boss noon may_rows] recent_rows [of staff new_year may_rows]
    by blast
qed

text \<open>
  A request submitted with a \<open>dateRequested\<close> in 2099 is listed as recent in June 2025.
\<close>

theorem recent_future_counterexample:
  "post_requests iso_date_getTime (Some staff) ''r9''
     (JObj (leave_body @ [(''dateRequested'', JStr ''2099-01-01'')])) []
     = (Created (Some (submitted_row\<lparr>dateRequested := ''2099-01-01''\<rparr>)),
        [submitted_row\<lparr>dateRequested := ''2099-01-01''\<rparr>]) \<and>
   get_requests_recent (Some boss) noon [submitted_row\<lparr>dateRequested := ''2099-01-01''\<rparr>]
     = Ok [submitted_row\<lparr>dateRequested := ''2099-01-01''\<rparr>] \<and>
   todayStr noon = ''2025-06-15'' \<and>
   \<not> dateRequested (submitted_row\<lparr>dateRequested := ''2099-01-01''\<rparr>) \<le> todayStr noon"
  by code_simp

end
